theory Spec2Isabelle
  imports Main "HOL-Library.Word"
begin

section \<open>The zarr driver of tensorstore: data model\<close>

text \<open>
  This theory embeds the functions of \<^verbatim>\<open>tensorstore/driver/zarr/driver.cc\<close> that
  derive chunk storage keys, resize and compare metadata, report chunk grid bounds,
  bind the deprecated \<^verbatim>\<open>key_encoding\<close> member, compute fill values and create
  metadata. Each definition follows the C++ function of the same name.
\<close>

subsection \<open>Status, Result and assertions\<close>

text \<open>
  \<^verbatim>\<open>absl::Status\<close> is a code with a message; the non-OK codes are listed. A
  \<^verbatim>\<open>Result<T>\<close> is \<open>Status + T\<close>, with \<open>Inl\<close> the error. A function that returns
  a bare \<^verbatim>\<open>Status\<close> returns \<open>Status + unit\<close>, and \<open>OkStatus\<close> is \<open>Inr ()\<close>.
\<close>

datatype StatusCode =
    kCancelled | kUnknown | kInvalidArgument | kDeadlineExceeded | kNotFound
  | kAlreadyExists | kPermissionDenied | kResourceExhausted | kFailedPrecondition
  | kAborted | kOutOfRange | kUnimplemented | kInternal | kUnavailable | kDataLoss
  | kUnauthenticated

datatype Status = Status (code: StatusCode) (message: string)

type_synonym 'a Result = "Status + 'a"

definition OkStatus :: "unit Result" where
  "OkStatus = Inr ()"

definition InvalidArgumentError :: "string \<Rightarrow> Status" where
  "InvalidArgumentError msg = Status kInvalidArgument msg"

definition FailedPreconditionError :: "string \<Rightarrow> Status" where
  "FailedPreconditionError msg = Status kFailedPrecondition msg"

definition AlreadyExistsError :: "string \<Rightarrow> Status" where
  "AlreadyExistsError msg = Status kAlreadyExists msg"

text \<open>
  An \<^verbatim>\<open>assert\<close> that fails aborts the program: this is not a \<^verbatim>\<open>Status\<close> the caller
  can inspect. A function with assertions returns an \<open>outcome\<close>: either the
  assertion failure or the value the function returns.
\<close>

datatype 'a outcome = AssertionFailed | Returns 'a

subsection \<open>Indices\<close>

text \<open>\<^verbatim>\<open>Index\<close> is \<^verbatim>\<open>std::ptrdiff_t\<close>, a signed 64-bit integer; ranks and
  positions (\<^verbatim>\<open>DimensionIndex\<close>) are never negative in the functions below and are
  natural numbers.\<close>

type_synonym Index = "64 word"

type_synonym DimensionIndex = nat

text \<open>Modelled from the spec: the sentinel for an "unspecified" bound, \<^verbatim>\<open>kImplicit\<close>,
  is declared in \<^verbatim>\<open>tensorstore/index.h\<close>, which is not among the source files. The
  specification names the sentinel without a value; it is taken to be the least
  value of \<^verbatim>\<open>Index\<close>. The functions below only compare an index with it, and no
  general theorem below depends on its value.\<close>

definition kImplicit :: Index where
  "kImplicit = - (2 ^ 63)"

text \<open>Modelled from the spec: \<^verbatim>\<open>ExplicitIndexOr\<close> of \<^verbatim>\<open>tensorstore/index.h\<close> (not among
  the source files) replaces the "unspecified" sentinel by a default value.\<close>

definition ExplicitIndexOr :: "Index \<Rightarrow> Index \<Rightarrow> Index" where
  "ExplicitIndexOr v default_value = (if v = kImplicit then default_value else v)"

text \<open>Modelled from the spec: \<^verbatim>\<open>kInfIndex\<close> is declared in \<^verbatim>\<open>tensorstore/index.h\<close>,
  which is not among the source files. It is the bound of an unbounded dimension,
  and \<open>kInfIndex + 1\<close> is the size of a dimension that broadcasts. The functions
  below only store \<open>kInfIndex + 1\<close> in a shape, and no general theorem below depends
  on its value.\<close>

definition kInfIndex :: Index where
  "kInfIndex = 2 ^ 62 - 1"

subsection \<open>Dimension separator\<close>

datatype DimensionSeparator = kDotSeparated | kSlashSeparated

subsection \<open>Arrays and transforms\<close>

text \<open>
  A \<^verbatim>\<open>SharedArray<const void>\<close> is an element pointer with a shape. The array is
  \<open>valid\<close> when the pointer is not null; its rank is the length of its shape. The
  default-constructed array has a null pointer and rank 0.
\<close>

record 'e SharedArray =
  element_pointer :: "'e option"
  array_shape :: "Index list"

definition array_valid :: "'e SharedArray \<Rightarrow> bool" where
  "array_valid a = (element_pointer a \<noteq> None)"

definition array_rank :: "'e SharedArray \<Rightarrow> DimensionIndex" where
  "array_rank a = length (array_shape a)"

definition null_array :: "'e SharedArray" where
  "null_array = \<lparr>element_pointer = None, array_shape = []\<rparr>"

text \<open>
  An \<^verbatim>\<open>IndexTransformView<>\<close> is either null (not valid) or a transform with an
  input rank, an output rank and its output index maps, which stay abstract.
\<close>

datatype 'm IndexTransformView =
    NullTransform
  | Transform (input_rank: DimensionIndex) (output_rank: DimensionIndex) (output_maps: 'm)

fun transform_valid :: "'m IndexTransformView \<Rightarrow> bool" where
  "transform_valid NullTransform = False"
| "transform_valid (Transform _ _ _) = True"

subsection \<open>Metadata\<close>

text \<open>
  The members of \<^verbatim>\<open>ZarrMetadata\<close> that the functions below read or write. Its other
  members (\<^verbatim>\<open>zarr_format\<close>, \<^verbatim>\<open>compressor\<close>, \<^verbatim>\<open>filters\<close>, \<^verbatim>\<open>order\<close>, \<^verbatim>\<open>chunk_layout\<close>)
  are carried by the extension of the record, so that every function is defined
  on metadata with any further members.
\<close>

record 'd ZarrField =
  dtype :: 'd
  field_shape :: "Index list"

text \<open>The member \<^verbatim>\<open>fields\<close> of \<^verbatim>\<open>ZarrDType\<close>.\<close>

record 'd ZarrDType =
  dtype_fields :: "'d ZarrField list"

record ('d, 'e) ZarrMetadata =
  rank :: DimensionIndex
  shape :: "Index list"
  chunks :: "Index list"
  dtype :: "'d ZarrDType"
  fill_value :: "'e SharedArray list"
  dimension_separator :: "DimensionSeparator option"

text \<open>Every member of \<^verbatim>\<open>ZarrPartialMetadata\<close> is optional.\<close>

record ('d, 'e) ZarrPartialMetadata =
  shape :: "Index list option"
  chunks :: "Index list option"
  dtype :: "'d ZarrDType option"
  fill_value :: "'e SharedArray list option"
  dimension_separator :: "DimensionSeparator option"

text \<open>The schema of a spec: the function \<^verbatim>\<open>SpecGetFillValue\<close> reads its fill value.\<close>

record 'e Schema =
  fill_value :: "'e SharedArray"

text \<open>\<^verbatim>\<open>ZarrDriver::SpecData\<close>: the members of the base class that are read below
  (\<^verbatim>\<open>store.path\<close> and \<^verbatim>\<open>schema\<close>) and the two members the zarr driver adds.\<close>

record ('d, 'e, 's) SpecData =
  store_path :: string
  schema :: "'s"
  partial_metadata :: "('d, 'e) ZarrPartialMetadata"
  selected_field :: string

section \<open>Dimension separator of a store\<close>

definition GetDimensionSeparatorChar :: "DimensionSeparator \<Rightarrow> char" where
  "GetDimensionSeparatorChar sep =
     (if sep = kDotSeparated then CHR ''.'' else CHR ''/'')"

definition GetDimensionSeparator ::
  "('d, 'e, 'p) ZarrPartialMetadata_scheme \<Rightarrow> ('d, 'e, 'z) ZarrMetadata_scheme \<Rightarrow> DimensionSeparator"
where
  "GetDimensionSeparator pm metadata =
     (case ZarrMetadata.dimension_separator metadata of
        Some d \<Rightarrow> d
      | None \<Rightarrow>
          (case ZarrPartialMetadata.dimension_separator pm of
             Some d \<Rightarrow> d
           | None \<Rightarrow> kDotSeparated))"

section \<open>Chunk storage keys\<close>

subsection \<open>Rendering an index\<close>

text \<open>
  \<^verbatim>\<open>StrAppend\<close> renders a signed 64-bit integer in decimal: the digits, most
  significant first, without leading zeros, after a minus sign when the value is
  negative.
\<close>

definition digit_char :: "nat \<Rightarrow> char" where
  "digit_char d = ''0123456789'' ! d"

fun decimal :: "nat \<Rightarrow> string" where
  "decimal n = (if n < 10 then [digit_char n] else decimal (n div 10) @ [digit_char (n mod 10)])"

declare decimal.simps [simp del]

definition IndexToString :: "Index \<Rightarrow> string" where
  "IndexToString i =
     (if sint i < 0 then CHR ''-'' # decimal (nat (- sint i)) else decimal (nat (sint i)))"

subsection \<open>EncodeChunkIndices and GetChunkStorageKey\<close>

text \<open>The loop of \<^verbatim>\<open>EncodeChunkIndices\<close>, with the position \<open>i\<close> and the key built
  so far.\<close>

function EncodeChunkIndices_loop :: "char \<Rightarrow> Index list \<Rightarrow> DimensionIndex \<Rightarrow> string \<Rightarrow> string" where
  "EncodeChunkIndices_loop separator indices i key =
     (if i < length indices then
        EncodeChunkIndices_loop separator indices (i + 1)
          (if i \<noteq> 0 then key @ [separator] @ IndexToString (indices ! i)
           else key @ IndexToString (indices ! i))
      else key)"
  by pat_completeness auto
termination
  by (relation "measure (\<lambda>(separator, indices, i, key). length indices - i)") auto

declare EncodeChunkIndices_loop.simps [simp del]

definition EncodeChunkIndices :: "Index list \<Rightarrow> DimensionSeparator \<Rightarrow> string" where
  "EncodeChunkIndices indices sep =
     EncodeChunkIndices_loop (GetDimensionSeparatorChar sep) indices 0 []"

text \<open>The members of \<^verbatim>\<open>DataCache\<close> that the zarr driver adds to its base class.\<close>

record DataCache =
  key_prefix :: string
  dimension_separator :: DimensionSeparator

text \<open>\<^verbatim>\<open>GetChunkStorageKey\<close> does not read its metadata argument.\<close>

definition GetChunkStorageKey ::
  "DataCache \<Rightarrow> ('d, 'e, 'z) ZarrMetadata_scheme \<Rightarrow> Index list \<Rightarrow> string"
where
  "GetChunkStorageKey cache metadata cell_indices =
     key_prefix cache @ EncodeChunkIndices cell_indices (DataCache.dimension_separator cache)"

text \<open>\<^verbatim>\<open>OpenState::GetDataCache\<close>: the cache of a spec and the metadata read on open.\<close>

definition GetDataCache ::
  "('d, 'e, 's, 'x) SpecData_scheme \<Rightarrow> ('d, 'e, 'z) ZarrMetadata_scheme \<Rightarrow> DataCache"
where
  "GetDataCache spec metadata =
     \<lparr>key_prefix = store_path spec,
      dimension_separator = GetDimensionSeparator (partial_metadata spec) metadata\<rparr>"

text \<open>The indices joined by a separator: the value of the loop, as a list function.\<close>

fun join_indices :: "char \<Rightarrow> Index list \<Rightarrow> string" where
  "join_indices c [] = []"
| "join_indices c [x] = IndexToString x"
| "join_indices c (x # y # ys) = IndexToString x @ [c] @ join_indices c (y # ys)"

subsection \<open>Decoding a key\<close>

text \<open>
  The reverse of the join, following the words of the specification (the source has
  no decoder): the key suffix is split on the separator character and every piece
  is read as a decimal number, with a minus sign for a negative value. The number
  of indices is fixed by the rank of the array, so the decoder takes it; for rank 0
  the suffix is empty.
\<close>

definition digit_val :: "char \<Rightarrow> nat option" where
  "digit_val c =
     (let k = (of_char c :: nat) in if 48 \<le> k \<and> k \<le> 57 then Some (k - 48) else None)"

fun parse_digits :: "nat \<Rightarrow> string \<Rightarrow> nat option" where
  "parse_digits acc [] = Some acc"
| "parse_digits acc (c # cs) =
     (case digit_val c of None \<Rightarrow> None | Some d \<Rightarrow> parse_digits (10 * acc + d) cs)"

definition parse_decimal :: "string \<Rightarrow> nat option" where
  "parse_decimal s = (if s = [] then None else parse_digits 0 s)"

definition parse_index :: "string \<Rightarrow> Index option" where
  "parse_index s =
     (case s of
        [] \<Rightarrow> None
      | c # cs \<Rightarrow>
          if c = CHR ''-'' then
            (case parse_decimal cs of
               None \<Rightarrow> None
             | Some n \<Rightarrow> if 0 < n \<and> n \<le> 2 ^ 63 then Some (- of_nat n) else None)
          else
            (case parse_decimal s of
               None \<Rightarrow> None
             | Some n \<Rightarrow> if n < 2 ^ 63 then Some (of_nat n) else None))"

fun split_on :: "char \<Rightarrow> string \<Rightarrow> string list" where
  "split_on c [] = [[]]"
| "split_on c (x # xs) =
     (if x = c then [] # split_on c xs
      else (case split_on c xs of p # ps \<Rightarrow> (x # p) # ps | [] \<Rightarrow> [[x]]))"

definition DecodeChunkIndices ::
  "DimensionIndex \<Rightarrow> DimensionSeparator \<Rightarrow> string \<Rightarrow> Index list option"
where
  "DecodeChunkIndices n sep s =
     (if n = 0 then (if s = [] then Some [] else None)
      else
        (let pieces = split_on (GetDimensionSeparatorChar sep) s in
         if length pieces = n then those (map parse_index pieces) else None))"

section \<open>Metadata compatibility\<close>

text \<open>Modelled from the spec: \<^verbatim>\<open>IsMetadataCompatible\<close> is defined in
  \<^verbatim>\<open>tensorstore/driver/zarr/metadata.cc\<close>, which is not among the source files. By
  the specification two metadata values are compatible when they agree on rank,
  chunk shape and field layout; the shape extents are not compared.\<close>

definition IsMetadataCompatible ::
  "('d, 'e, 'z) ZarrMetadata_scheme \<Rightarrow> ('d, 'e, 'z) ZarrMetadata_scheme \<Rightarrow> bool"
where
  "IsMetadataCompatible a b =
     (rank a = rank b
      \<and> ZarrMetadata.chunks a = ZarrMetadata.chunks b
      \<and> ZarrMetadata.dtype a = ZarrMetadata.dtype b)"

text \<open>
  \<^verbatim>\<open>DataCache::ValidateMetadataCompatibility\<close>. The two pointers are \<open>None\<close> when
  null. The JSON text of a metadata value, which appears in the error message only,
  is the parameter \<open>dump\<close>.
\<close>

definition ValidateMetadataCompatibility ::
  "(('d, 'e, 'z) ZarrMetadata_scheme \<Rightarrow> string) \<Rightarrow>
   ('d, 'e, 'z) ZarrMetadata_scheme option \<Rightarrow> ('d, 'e, 'z) ZarrMetadata_scheme option \<Rightarrow>
   unit Result outcome"
where
  "ValidateMetadataCompatibility dump existing_metadata_ptr new_metadata_ptr =
     (case existing_metadata_ptr of
        None \<Rightarrow> AssertionFailed
      | Some existing_metadata \<Rightarrow>
          (case new_metadata_ptr of
             None \<Rightarrow> AssertionFailed
           | Some new_metadata \<Rightarrow>
               if IsMetadataCompatible existing_metadata new_metadata then Returns OkStatus
               else Returns (Inl (FailedPreconditionError
                      (''Updated zarr metadata '' @ dump new_metadata @
                       '' is incompatible with existing metadata '' @ dump existing_metadata)))))"

section \<open>Chunk grid bounds\<close>

text \<open>A \<^verbatim>\<open>MutableBoxView<>\<close> of rank \<open>n\<close> views an origin and a shape of \<open>n\<close> entries
  each; its rank is the number of entries of the origin.\<close>

record Box =
  origin :: "Index list"
  shape :: "Index list"

definition box_rank :: "Box \<Rightarrow> DimensionIndex" where
  "box_rank b = length (origin b)"

text \<open>
  \<^verbatim>\<open>DataCache::GetChunkGridBounds\<close> writes through its three output parameters; the
  model takes their contents before the call and returns their contents after it.
  \<^verbatim>\<open>std::fill\<close> overwrites every entry; \<^verbatim>\<open>std::copy\<close> overwrites the first entries of
  the target with the source.
\<close>

definition GetChunkGridBounds ::
  "('d, 'e, 'z) ZarrMetadata_scheme \<Rightarrow> Box \<Rightarrow> bool list \<Rightarrow> bool list \<Rightarrow>
   (Box \<times> bool list \<times> bool list) outcome"
where
  "GetChunkGridBounds metadata bounds implicit_lower_bounds implicit_upper_bounds =
     (if box_rank bounds \<noteq> length (ZarrMetadata.shape metadata) then AssertionFailed
      else if box_rank bounds \<noteq> length implicit_lower_bounds then AssertionFailed
      else if box_rank bounds \<noteq> length implicit_upper_bounds then AssertionFailed
      else Returns
        (\<lparr>origin = map (\<lambda>_. 0) (origin bounds),
          shape = ZarrMetadata.shape metadata @
                  drop (length (ZarrMetadata.shape metadata)) (Box.shape bounds)\<rparr>,
         map (\<lambda>_. False) implicit_lower_bounds,
         map (\<lambda>_. True) implicit_upper_bounds))"

section \<open>Resizing\<close>

text \<open>The loop of \<^verbatim>\<open>DataCache::GetResizedMetadata\<close> over the dimensions, with the
  position \<open>i\<close> and the copy of the metadata that it updates.\<close>

function GetResizedMetadata_loop ::
  "Index list \<Rightarrow> Index list \<Rightarrow> DimensionIndex \<Rightarrow> DimensionIndex \<Rightarrow>
   ('d, 'e, 'z) ZarrMetadata_scheme \<Rightarrow> ('d, 'e, 'z) ZarrMetadata_scheme outcome"
where
  "GetResizedMetadata_loop new_inclusive_min new_exclusive_max rnk i new_metadata =
     (if i < rnk then
        (if ExplicitIndexOr (new_inclusive_min ! i) 0 \<noteq> 0 then AssertionFailed
         else
           (let new_size = new_exclusive_max ! i in
            if new_size = kImplicit then
              GetResizedMetadata_loop new_inclusive_min new_exclusive_max rnk (i + 1) new_metadata
            else
              GetResizedMetadata_loop new_inclusive_min new_exclusive_max rnk (i + 1)
                (new_metadata\<lparr>ZarrMetadata.shape :=
                   (ZarrMetadata.shape new_metadata)[i := new_size]\<rparr>)))
      else Returns new_metadata)"
  by pat_completeness auto
termination
  by (relation "measure (\<lambda>(new_inclusive_min, new_exclusive_max, rnk, i, new_metadata). rnk - i)")
    auto

declare GetResizedMetadata_loop.simps [simp del]

definition GetResizedMetadata ::
  "('d, 'e, 'z) ZarrMetadata_scheme \<Rightarrow> Index list \<Rightarrow> Index list \<Rightarrow>
   ('d, 'e, 'z) ZarrMetadata_scheme Result outcome"
where
  "GetResizedMetadata existing_metadata new_inclusive_min new_exclusive_max =
     (let new_metadata = existing_metadata;
          rnk = length (ZarrMetadata.shape new_metadata)
      in if rnk \<noteq> length new_inclusive_min then AssertionFailed
         else if rnk \<noteq> length new_exclusive_max then AssertionFailed
         else
           (case GetResizedMetadata_loop new_inclusive_min new_exclusive_max rnk 0 new_metadata of
              AssertionFailed \<Rightarrow> AssertionFailed
            | Returns resized \<Rightarrow> Returns (Inr resized)))"

text \<open>The extents that the specification asks of a resize, for comparison with the
  loop: where the new exclusive maximum is the sentinel the old extent, otherwise the
  new exclusive maximum.\<close>

definition resized_shape :: "Index list \<Rightarrow> Index list \<Rightarrow> Index list" where
  "resized_shape old new_exclusive_max =
     map (\<lambda>(old_size, new_size). if new_size = kImplicit then old_size else new_size)
       (zip old new_exclusive_max)"

section \<open>The deprecated key_encoding member\<close>

text \<open>
  The function that the binder of the member \<^verbatim>\<open>key_encoding\<close> applies when a
  document is loaded and has that member: \<open>obj\<close> is the spec bound so far (the member
  \<^verbatim>\<open>metadata\<close> is bound before) and \<open>v\<close> is the separator read from the member. The
  JSON text of a separator, which appears in the error message only, is the
  parameter \<open>dump\<close>.
\<close>

definition key_encoding_binder ::
  "(DimensionSeparator \<Rightarrow> string) \<Rightarrow> ('d, 'e, 's, 'x) SpecData_scheme \<Rightarrow> DimensionSeparator \<Rightarrow>
   ('d, 'e, 's, 'x) SpecData_scheme Result"
where
  "key_encoding_binder dump obj v =
     (let sep = ZarrPartialMetadata.dimension_separator (partial_metadata obj) in
      if sep \<noteq> None \<and> the sep \<noteq> v then
        Inl (InvalidArgumentError
               (''value ('' @ dump v @ '') does not match value in metadata ('' @
                dump (the sep) @ '')''))
      else
        Inr (obj\<lparr>partial_metadata :=
               (partial_metadata obj)\<lparr>ZarrPartialMetadata.dimension_separator := Some v\<rparr>\<rparr>))"

section \<open>Fill values\<close>

text \<open>
  The first step of \<^verbatim>\<open>ZarrDriver::SpecGetFillValue\<close>: the fill value of the schema,
  replaced by the fill value of the selected field when the partial metadata has a
  data type and fill values. \<^verbatim>\<open>GetFieldIndex\<close> is not among the source files and is a
  parameter; its error is returned as it is.
\<close>

definition SpecGetFillValue_select ::
  "('d ZarrDType \<Rightarrow> string \<Rightarrow> nat Result) \<Rightarrow>
   ('d, 'e, ('e, 's) Schema_scheme, 'x) SpecData_scheme \<Rightarrow> 'e SharedArray Result"
where
  "SpecGetFillValue_select GetFieldIndex spec =
     (let fv = Schema.fill_value (schema spec);
          metadata = partial_metadata spec
      in case (ZarrPartialMetadata.dtype metadata, ZarrPartialMetadata.fill_value metadata) of
           (Some dt, Some fvs) \<Rightarrow>
             (case GetFieldIndex dt (selected_field spec) of
                Inl e \<Rightarrow> Inl e
              | Inr field_index \<Rightarrow> Inr (fvs ! field_index))
         | _ \<Rightarrow> Inr fv)"

text \<open>
  \<^verbatim>\<open>ZarrDriver::SpecGetFillValue\<close>. \<^verbatim>\<open>TransformOutputBroadcastableArray\<close> and the
  constructor of an \<^verbatim>\<open>IndexDomain\<close> from a shape are not among the source files and
  are parameters. The array \<^verbatim>\<open>pseudo_shape\<close> has room for \<^verbatim>\<open>kMaxRank\<close> entries, which
  bounds the rank of every transform; the model keeps the entries that are written.
\<close>

definition SpecGetFillValue ::
  "('d ZarrDType \<Rightarrow> string \<Rightarrow> nat Result) \<Rightarrow>
   (Index list \<Rightarrow> 'dom) \<Rightarrow>
   ('m IndexTransformView \<Rightarrow> 'e SharedArray \<Rightarrow> 'dom \<Rightarrow> 'e SharedArray Result) \<Rightarrow>
   ('d, 'e, ('e, 's) Schema_scheme, 'x) SpecData_scheme \<Rightarrow> 'm IndexTransformView \<Rightarrow>
   'e SharedArray Result"
where
  "SpecGetFillValue GetFieldIndex IndexDomain TransformOutputBroadcastableArray spec transform =
     (case SpecGetFillValue_select GetFieldIndex spec of
        Inl e \<Rightarrow> Inl e
      | Inr fv \<Rightarrow>
          if \<not> array_valid fv \<or> \<not> transform_valid transform then Inr fv
          else
            (let out_rank = output_rank transform in
             if out_rank < array_rank fv then
               Inl (InvalidArgumentError
                      (''Transform with output rank '' @ decimal out_rank @
                       '' is not compatible with metadata''))
             else
               (let pseudo_shape =
                      replicate (out_rank - array_rank fv) (kInfIndex + 1) @
                      map (\<lambda>size. if size = 1 then kInfIndex + 1 else size) (array_shape fv)
                in TransformOutputBroadcastableArray transform fv (IndexDomain pseudo_shape))))"

text \<open>
  \<^verbatim>\<open>ZarrDriver::GetFillValue\<close>, on the initial metadata of the cache and the
  component index of the driver. \<^verbatim>\<open>IndexDomainBuilder::Finalize\<close>, here a function
  of the shape given to the builder, and \<^verbatim>\<open>TransformOutputBroadcastableArray\<close> are
  parameters.
\<close>

definition GetFillValue ::
  "(Index list \<Rightarrow> 'dom Result) \<Rightarrow>
   ('m IndexTransformView \<Rightarrow> 'e SharedArray \<Rightarrow> 'dom \<Rightarrow> 'e SharedArray Result) \<Rightarrow>
   ('d, 'e, 'z) ZarrMetadata_scheme \<Rightarrow> nat \<Rightarrow> 'm IndexTransformView \<Rightarrow> 'e SharedArray Result"
where
  "GetFillValue Finalize TransformOutputBroadcastableArray metadata component_index transform =
     (let fv = ZarrMetadata.fill_value metadata ! component_index in
      if \<not> array_valid fv then Inr null_array
      else
        (let field = dtype_fields (ZarrMetadata.dtype metadata) ! component_index;
             builder_shape = replicate (rank metadata) (kInfIndex + 1) @ field_shape field
         in case Finalize builder_shape of
              Inl e \<Rightarrow> Inl e
            | Inr output_domain \<Rightarrow> TransformOutputBroadcastableArray transform fv output_domain))"

text \<open>Modelled from the spec: \<^verbatim>\<open>TransformOutputBroadcastableArray\<close> is defined in
  \<^verbatim>\<open>tensorstore/index_space/transform_broadcastable_array.cc\<close>, which is not among the
  source files. By the specification, broadcasting an array against a transform
  fails with an incompatible-rank error when the output rank of the transform is
  smaller than the rank of the array. The specification gives the error no text,
  and does not describe the broadcast array further: the broadcast itself, which may
  fail for other reasons, is the parameter \<open>broadcast\<close>.\<close>

definition TransformOutputBroadcastableArray_spec ::
  "('m IndexTransformView \<Rightarrow> 'e SharedArray \<Rightarrow> 'dom \<Rightarrow> 'e SharedArray Result) \<Rightarrow>
   'm IndexTransformView \<Rightarrow> 'e SharedArray \<Rightarrow> 'dom \<Rightarrow> 'e SharedArray Result"
where
  "TransformOutputBroadcastableArray_spec broadcast transform output_array output_domain =
     (if output_rank transform < array_rank output_array then Inl (InvalidArgumentError [])
      else broadcast transform output_array output_domain)"

section \<open>Creating metadata\<close>

text \<open>
  \<^verbatim>\<open>ZarrDriver::OpenState::Create\<close>. The pointer to the existing metadata is \<open>None\<close>
  when null. \<^verbatim>\<open>GetNewMetadata\<close> and \<^verbatim>\<open>MaybeAnnotateStatus\<close> are not among the source
  files and are parameters.
\<close>

definition Create ::
  "(('d, 'e) ZarrPartialMetadata \<Rightarrow> string \<Rightarrow> 's \<Rightarrow> 'meta Result) \<Rightarrow>
   (Status \<Rightarrow> string \<Rightarrow> Status) \<Rightarrow>
   ('d, 'e, 's, 'x) SpecData_scheme \<Rightarrow> 'meta option \<Rightarrow> 'meta Result"
where
  \<open>Create GetNewMetadata MaybeAnnotateStatus spec existing_metadata =
     (if existing_metadata \<noteq> None then Inl (AlreadyExistsError [])
      else
        (case GetNewMetadata (partial_metadata spec) (selected_field spec) (schema spec) of
           Inl e \<Rightarrow>
             Inl (MaybeAnnotateStatus e
                    ''Cannot create using specified "metadata" and schema'')
         | Inr metadata \<Rightarrow> Inr metadata))\<close>

section \<open>The metadata cache\<close>

text \<open>
  \<^verbatim>\<open>ParseEncodedMetadata\<close>, \<^verbatim>\<open>MetadataCache::DecodeMetadata\<close> and
  \<^verbatim>\<open>MetadataCache::EncodeMetadata\<close>. The JSON parser (\<open>None\<close> for a discarded value)
  and printer, and the conversions \<^verbatim>\<open>ZarrMetadata::FromJson\<close> and \<^verbatim>\<open>to_json\<close>, are
  not among the source files and are parameters.
\<close>

definition kZarrMetadataKey :: string where
  "kZarrMetadataKey = ''.zarray''"

definition GetMetadataStorageKey :: "string \<Rightarrow> string" where
  "GetMetadataStorageKey entry_key = entry_key @ kZarrMetadataKey"

definition ParseEncodedMetadata ::
  "(string \<Rightarrow> 'j option) \<Rightarrow> ('j \<Rightarrow> 'meta Result) \<Rightarrow> string \<Rightarrow> 'meta Result"
where
  "ParseEncodedMetadata parse FromJson encoded_value =
     (case parse encoded_value of
        None \<Rightarrow> Inl (FailedPreconditionError ''Invalid JSON'')
      | Some raw_data \<Rightarrow> FromJson raw_data)"

definition DecodeMetadata ::
  "(string \<Rightarrow> 'j option) \<Rightarrow> ('j \<Rightarrow> 'meta Result) \<Rightarrow> string \<Rightarrow> string \<Rightarrow> 'meta Result"
where
  "DecodeMetadata parse FromJson entry_key encoded_metadata =
     ParseEncodedMetadata parse FromJson encoded_metadata"

definition EncodeMetadata ::
  "('meta \<Rightarrow> 'j) \<Rightarrow> ('j \<Rightarrow> string) \<Rightarrow> string \<Rightarrow> 'meta \<Rightarrow> string Result"
where
  "EncodeMetadata to_json dump entry_key metadata = Inr (dump (to_json metadata))"

section \<open>The store of the scenarios\<close>

text \<open>
  The store of the scenarios of the specification: rank 2, shape 4 by 4, chunks 2 by
  2, one field of data type float32 without a declared fill value, and a spec at the
  path \<^verbatim>\<open>a/\<close> that constrains nothing. Data types are given by name and array
  elements are left out.
\<close>

definition scenario_metadata :: "(string, unit) ZarrMetadata" where
  "scenario_metadata =
     \<lparr>rank = 2, shape = [4, 4], chunks = [2, 2],
      dtype = \<lparr>dtype_fields = [\<lparr>ZarrField.dtype = ''float32'', field_shape = []\<rparr>]\<rparr>,
      fill_value = [null_array], dimension_separator = None\<rparr>"

definition scenario_spec :: "(string, unit, unit Schema) SpecData" where
  "scenario_spec =
     \<lparr>store_path = ''a/'', schema = \<lparr>fill_value = null_array\<rparr>,
      partial_metadata =
        \<lparr>ZarrPartialMetadata.shape = None, chunks = None, dtype = None, fill_value = None,
         dimension_separator = None\<rparr>,
      selected_field = []\<rparr>"

section \<open>Properties\<close>

subsection \<open>The key is the prefix and the joined indices\<close>

lemma EncodeChunkIndices_loop_end:
  "length indices \<le> i \<Longrightarrow> EncodeChunkIndices_loop c indices i key = key"
  by (subst EncodeChunkIndices_loop.simps) simp

lemma EncodeChunkIndices_loop_drop:
  "0 < i \<Longrightarrow> i \<le> length indices \<Longrightarrow>
   EncodeChunkIndices_loop c indices i key =
     key @ concat (map (\<lambda>x. c # IndexToString x) (drop i indices))"
proof (induction c indices i key rule: EncodeChunkIndices_loop.induct)
  case (1 separator indices i key)
  show ?case
  proof (cases "i < length indices")
    case True
    then have d: "drop i indices = indices ! i # drop (Suc i) indices"
      by (simp add: Cons_nth_drop_Suc)
    from True "1.prems" have
      "EncodeChunkIndices_loop separator indices (i + 1) (key @ [separator] @ IndexToString (indices ! i)) =
         (key @ [separator] @ IndexToString (indices ! i)) @
           concat (map (\<lambda>x. separator # IndexToString x) (drop (i + 1) indices))"
      using "1.IH" [OF True] by simp
    with True "1.prems" d show ?thesis
      by (subst EncodeChunkIndices_loop.simps) simp
  next
    case False
    with "1.prems" show ?thesis
      by (simp add: EncodeChunkIndices_loop_end)
  qed
qed

lemma join_indices_Cons:
  "join_indices c (x # xs) = IndexToString x @ concat (map (\<lambda>y. c # IndexToString y) xs)"
  by (induction xs arbitrary: x) auto

lemma EncodeChunkIndices_loop_join:
  "EncodeChunkIndices_loop c indices 0 [] = join_indices c indices"
proof (cases indices)
  case Nil
  then show ?thesis by (simp add: EncodeChunkIndices_loop_end)
next
  case (Cons x xs)
  have "EncodeChunkIndices_loop c (x # xs) 0 [] =
        EncodeChunkIndices_loop c (x # xs) 1 (IndexToString x)"
    by (subst EncodeChunkIndices_loop.simps) simp
  also have "\<dots> = IndexToString x @ concat (map (\<lambda>y. c # IndexToString y) xs)"
    by (simp add: EncodeChunkIndices_loop_drop)
  finally show ?thesis
    using Cons by (simp add: join_indices_Cons)
qed

lemma EncodeChunkIndices_join:
  "EncodeChunkIndices indices sep = join_indices (GetDimensionSeparatorChar sep) indices"
  by (simp add: EncodeChunkIndices_def EncodeChunkIndices_loop_join)

subsection \<open>Rendering and reading an index\<close>

lemma decimal_digit: "n < 10 \<Longrightarrow> decimal n = [digit_char n]"
  by (subst decimal.simps) simp

lemma decimal_step: "10 \<le> n \<Longrightarrow> decimal n = decimal (n div 10) @ [digit_char (n mod 10)]"
  by (subst decimal.simps) simp

lemma digit_char_cases:
  "d < 10 \<Longrightarrow> d = 0 \<or> d = 1 \<or> d = 2 \<or> d = 3 \<or> d = 4 \<or> d = 5 \<or> d = 6 \<or> d = 7 \<or> d = 8 \<or> d = (9::nat)"
  by arith

lemma digit_val_digit_char: "d < 10 \<Longrightarrow> digit_val (digit_char d) = Some d"
  using digit_char_cases [of d] by (auto simp: digit_val_def digit_char_def)

lemma digit_char_not_sep: "d < 10 \<Longrightarrow> digit_char d \<noteq> CHR ''.'' \<and> digit_char d \<noteq> CHR ''/'' \<and> digit_char d \<noteq> CHR ''-''"
  using digit_char_cases [of d] by (auto simp: digit_char_def)

lemma decimal_not_Nil: "decimal n \<noteq> []"
  by (subst decimal.simps) simp

lemma decimal_chars: "c \<in> set (decimal n) \<Longrightarrow> \<exists>d<10. c = digit_char d"
proof (induction n rule: decimal.induct)
  case (1 n)
  show ?case
  proof (cases "n < 10")
    case True
    with "1.prems" show ?thesis by (subst (asm) decimal.simps) auto
  next
    case False
    from "1.prems" have "c \<in> set (decimal (n div 10)) \<or> c = digit_char (n mod 10)"
      using False by (subst (asm) decimal.simps) auto
    then show ?thesis
    proof
      assume "c \<in> set (decimal (n div 10))"
      then show ?thesis using "1.IH" False by simp
    next
      assume "c = digit_char (n mod 10)"
      moreover have "n mod 10 < 10" by simp
      ultimately show ?thesis by blast
    qed
  qed
qed

lemma parse_digits_append:
  "parse_digits acc (xs @ ys) =
     (case parse_digits acc xs of None \<Rightarrow> None | Some a \<Rightarrow> parse_digits a ys)"
  by (induction xs arbitrary: acc) (auto split: option.splits)

lemma parse_digits_decimal: "parse_digits 0 (decimal n) = Some n"
proof (induction n rule: decimal.induct)
  case (1 n)
  show ?case
  proof (cases "n < 10")
    case True
    then show ?thesis by (subst decimal.simps) (simp add: digit_val_digit_char)
  next
    case False
    have "parse_digits 0 (decimal (n div 10) @ [digit_char (n mod 10)]) = Some (10 * (n div 10) + n mod 10)"
      using "1.IH" [OF False] by (simp add: parse_digits_append digit_val_digit_char)
    then show ?thesis using False by (subst decimal.simps) simp
  qed
qed

lemma parse_decimal_decimal: "parse_decimal (decimal n) = Some n"
  by (simp add: parse_decimal_def decimal_not_Nil parse_digits_decimal)

lemma hd_decimal_not_minus: "decimal n = c # cs \<Longrightarrow> c \<noteq> CHR ''-''"
  using decimal_chars [of c n] digit_char_not_sep by fastforce

lemma parse_index_IndexToString: "parse_index (IndexToString i) = Some i"
proof (cases "sint i < 0")
  case True
  have lo: "- (2 ^ 63) \<le> sint i" using sint_ge [of i] by simp
  then have b: "0 < nat (- sint i) \<and> nat (- sint i) \<le> 2 ^ 63" using True by auto
  have "of_nat (nat (- sint i)) = (of_int (- sint i) :: Index)"
    using True by simp
  then have "- of_nat (nat (- sint i)) = i" by simp
  with True b show ?thesis
    by (simp add: parse_index_def IndexToString_def parse_decimal_decimal)
next
  case False
  have hi: "sint i < 2 ^ 63" using sint_lt [of i] by simp
  then have b: "nat (sint i) < 2 ^ 63" using False by auto
  have e: "of_nat (nat (sint i)) = i" using False by simp
  obtain c cs where d: "decimal (nat (sint i)) = c # cs"
    using decimal_not_Nil by (cases "decimal (nat (sint i))") auto
  then have "c \<noteq> CHR ''-''" by (rule hd_decimal_not_minus)
  moreover have "parse_decimal (c # cs) = Some (nat (sint i))"
    using parse_decimal_decimal [of "nat (sint i)"] d by simp
  ultimately show ?thesis using False b e d
    by (simp add: parse_index_def IndexToString_def)
qed

lemma decimal_no_sep:
  assumes "c \<in> set (decimal n)"
  shows "c \<noteq> CHR ''.'' \<and> c \<noteq> CHR ''/'' \<and> c \<noteq> CHR ''-''"
proof -
  from assms obtain d where "d < 10" and "c = digit_char d"
    using decimal_chars by blast
  then show ?thesis using digit_char_not_sep by simp
qed

lemma IndexToString_no_sep:
  assumes "c \<in> set (IndexToString i)"
  shows "c \<noteq> CHR ''.'' \<and> c \<noteq> CHR ''/''"
proof (cases "sint i < 0")
  case True
  with assms have "c = CHR ''-'' \<or> c \<in> set (decimal (nat (- sint i)))"
    by (simp add: IndexToString_def)
  then show ?thesis using decimal_no_sep by auto
next
  case False
  with assms have "c \<in> set (decimal (nat (sint i)))"
    by (simp add: IndexToString_def)
  then show ?thesis using decimal_no_sep by simp
qed

lemma sep_not_in_IndexToString: "GetDimensionSeparatorChar sep \<notin> set (IndexToString i)"
  using IndexToString_no_sep [of "GetDimensionSeparatorChar sep" i]
  by (cases sep) (auto simp: GetDimensionSeparatorChar_def)

lemma split_on_no_sep: "c \<notin> set p \<Longrightarrow> split_on c p = [p]"
  by (induction p) auto

lemma split_on_piece: "c \<notin> set p \<Longrightarrow> split_on c (p @ c # r) = p # split_on c r"
  by (induction p) auto


lemma split_on_join_indices:
  "\<forall>x \<in> set (x # xs). c \<notin> set (IndexToString x) \<Longrightarrow>
   split_on c (join_indices c (x # xs)) = map IndexToString (x # xs)"
proof (induction xs arbitrary: x)
  case Nil
  then show ?case by (simp add: split_on_no_sep)
next
  case (Cons y ys)
  have "split_on c (IndexToString x @ c # join_indices c (y # ys)) =
        IndexToString x # split_on c (join_indices c (y # ys))"
    using Cons.prems by (simp add: split_on_piece)
  then show ?case using Cons by simp
qed

lemma those_map_parse_index: "those (map parse_index (map IndexToString xs)) = Some xs"
  by (induction xs) (simp_all add: parse_index_IndexToString)

lemma DecodeChunkIndices_EncodeChunkIndices:
  "DecodeChunkIndices (length indices) sep (EncodeChunkIndices indices sep) = Some indices"
proof (cases indices)
  case Nil
  then show ?thesis
    by (simp add: DecodeChunkIndices_def EncodeChunkIndices_join)
next
  case (Cons x xs)
  have "split_on (GetDimensionSeparatorChar sep) (join_indices (GetDimensionSeparatorChar sep) (x # xs))
        = map IndexToString (x # xs)"
    by (rule split_on_join_indices) (simp add: sep_not_in_IndexToString)
  with Cons show ?thesis
    using those_map_parse_index [of "x # xs"]
    by (simp add: DecodeChunkIndices_def EncodeChunkIndices_join)
qed

text \<open>
  C3. The chunk storage key is the key prefix of the cache followed by the cell
  indices joined by the separator character of the cache. Splitting the part of the
  key after the prefix on the separator and reading the pieces as numbers recovers
  the indices, and two index tuples of the same rank with the same key, under the
  same cache, are equal. This holds for all index tuples, so in particular for the
  valid ones, whose entries are not negative.
\<close>

theorem GetChunkStorageKey_injective:
  "GetChunkStorageKey cache metadata cell_indices =
     key_prefix cache @
       join_indices (GetDimensionSeparatorChar (DataCache.dimension_separator cache)) cell_indices
   \<and> DecodeChunkIndices (length cell_indices) (DataCache.dimension_separator cache)
       (drop (length (key_prefix cache)) (GetChunkStorageKey cache metadata cell_indices))
     = Some cell_indices
   \<and> (length other_indices = length cell_indices
      \<and> GetChunkStorageKey cache metadata' other_indices =
          GetChunkStorageKey cache metadata cell_indices
      \<longrightarrow> other_indices = cell_indices)"
proof -
  let ?sep = "DataCache.dimension_separator cache"
  have dec: "\<And>xs. DecodeChunkIndices (length xs) ?sep
               (drop (length (key_prefix cache)) (key_prefix cache @ EncodeChunkIndices xs ?sep)) = Some xs"
    by (simp add: DecodeChunkIndices_EncodeChunkIndices)
  have inj: "other_indices = cell_indices"
    if "length other_indices = length cell_indices"
      and "EncodeChunkIndices other_indices ?sep = EncodeChunkIndices cell_indices ?sep"
  proof -
    have "Some other_indices = DecodeChunkIndices (length other_indices) ?sep (EncodeChunkIndices other_indices ?sep)"
      by (simp add: DecodeChunkIndices_EncodeChunkIndices)
    also have "\<dots> = DecodeChunkIndices (length cell_indices) ?sep (EncodeChunkIndices cell_indices ?sep)"
      using that by simp
    also have "\<dots> = Some cell_indices"
      by (simp add: DecodeChunkIndices_EncodeChunkIndices)
    finally show ?thesis by simp
  qed
  show ?thesis
    using dec [of cell_indices] inj
    by (simp add: GetChunkStorageKey_def EncodeChunkIndices_join)
qed

theorem GetChunkStorageKey_injective_witness:
  "GetChunkStorageKey \<lparr>key_prefix = ''a/'', dimension_separator = kDotSeparated\<rparr>
     scenario_metadata [3, 10, 0] = ''a/3.10.0''
   \<and> DecodeChunkIndices 3 kDotSeparated ''3.10.0'' = Some [3, 10, 0]"
proof -
  let ?cache = "\<lparr>key_prefix = ''a/'', dimension_separator = kDotSeparated\<rparr>"
  have key: "GetChunkStorageKey ?cache scenario_metadata [3, 10, 0] = ''a/3.10.0''"
    by (simp add: GetChunkStorageKey_def EncodeChunkIndices_join GetDimensionSeparatorChar_def
        IndexToString_def decimal_digit decimal_step digit_char_def)
  have "DecodeChunkIndices (length [3, 10, 0 :: Index]) (DataCache.dimension_separator ?cache)
          (drop (length (key_prefix ?cache)) (GetChunkStorageKey ?cache scenario_metadata [3, 10, 0]))
        = Some [3, 10, 0]"
    using GetChunkStorageKey_injective
      [of ?cache scenario_metadata "[3, 10, 0]" "[3, 10, 0]" scenario_metadata]
    by blast
  then have "DecodeChunkIndices 3 kDotSeparated ''3.10.0'' = Some [3, 10, 0]"
    by (simp add: key numeral_3_eq_3)
  with key show ?thesis by simp
qed

subsection \<open>Resizing\<close>

lemma ExplicitIndexOr_zero: "ExplicitIndexOr v 0 = 0 \<longleftrightarrow> v = 0 \<or> v = kImplicit"
  by (auto simp: ExplicitIndexOr_def)

lemma GetResizedMetadata_loop_fails:
  "i \<le> k \<Longrightarrow> k < rnk \<Longrightarrow> ExplicitIndexOr (mins ! k) 0 \<noteq> 0 \<Longrightarrow>
   GetResizedMetadata_loop mins maxs rnk i m = AssertionFailed"
proof (induction mins maxs rnk i m rule: GetResizedMetadata_loop.induct)
  case (1 mins maxs rnk i m)
  show ?case
  proof (cases "ExplicitIndexOr (mins ! i) 0 \<noteq> 0")
    case True
    with "1.prems" show ?thesis
      by (subst GetResizedMetadata_loop.simps) simp
  next
    case False
    with "1.prems" have ik: "i + 1 \<le> k" and lt: "i < rnk"
      by (auto simp: le_less Suc_le_eq)
    show ?thesis
    proof (cases "maxs ! i = kImplicit")
      case True
      with False lt "1.IH"(1) [OF lt False refl True ik "1.prems"(2,3)] show ?thesis
        by (subst GetResizedMetadata_loop.simps) simp
    next
      case neq: False
      with False lt "1.IH"(2) [OF lt False refl neq ik "1.prems"(2,3)] show ?thesis
        by (subst GetResizedMetadata_loop.simps) simp
    qed
  qed
qed

lemma GetResizedMetadata_loop_returns:
  "i \<le> rnk \<Longrightarrow> rnk = length (ZarrMetadata.shape m) \<Longrightarrow> length maxs = rnk \<Longrightarrow>
   \<forall>j. i \<le> j \<and> j < rnk \<longrightarrow> ExplicitIndexOr (mins ! j) 0 = 0 \<Longrightarrow>
   GetResizedMetadata_loop mins maxs rnk i m =
     Returns (m\<lparr>ZarrMetadata.shape :=
       take i (ZarrMetadata.shape m) @
       resized_shape (drop i (ZarrMetadata.shape m)) (drop i maxs)\<rparr>)"
proof (induction mins maxs rnk i m rule: GetResizedMetadata_loop.induct)
  case (1 mins maxs rnk i m)
  let ?xs = "ZarrMetadata.shape m"
  show ?case
  proof (cases "i < rnk")
    case False
    with "1.prems" have "i = rnk" by simp
    with "1.prems" show ?thesis
      by (subst GetResizedMetadata_loop.simps) (simp add: resized_shape_def)
  next
    case lt: True
    with "1.prems" have ok: "\<not> ExplicitIndexOr (mins ! i) 0 \<noteq> 0" by simp
    from lt "1.prems" have dx: "drop i ?xs = ?xs ! i # drop (Suc i) ?xs"
      and dm: "drop i maxs = maxs ! i # drop (Suc i) maxs"
      and tx: "take (Suc i) ?xs = take i ?xs @ [?xs ! i]"
      by (simp_all add: Cons_nth_drop_Suc take_Suc_conv_app_nth)
    have rest: "\<forall>j. i + 1 \<le> j \<and> j < rnk \<longrightarrow> ExplicitIndexOr (mins ! j) 0 = 0"
      using "1.prems" by simp
    show ?thesis
    proof (cases "maxs ! i = kImplicit")
      case True
      have "GetResizedMetadata_loop mins maxs rnk (i + 1) m =
            Returns (m\<lparr>ZarrMetadata.shape :=
              take (i + 1) ?xs @ resized_shape (drop (i + 1) ?xs) (drop (i + 1) maxs)\<rparr>)"
        using "1.IH"(1) [OF lt ok refl True _ "1.prems"(2,3) rest] lt by simp
      with lt ok True dx dm tx show ?thesis
        by (subst GetResizedMetadata_loop.simps) (simp add: resized_shape_def)
    next
      case neq: False
      let ?m' = "m\<lparr>ZarrMetadata.shape := ?xs[i := maxs ! i]\<rparr>"
      have len: "rnk = length (ZarrMetadata.shape ?m')" using "1.prems" by simp
      have "GetResizedMetadata_loop mins maxs rnk (i + 1) ?m' =
            Returns (?m'\<lparr>ZarrMetadata.shape :=
              take (i + 1) (ZarrMetadata.shape ?m') @
              resized_shape (drop (i + 1) (ZarrMetadata.shape ?m')) (drop (i + 1) maxs)\<rparr>)"
        using "1.IH"(2) [OF lt ok refl neq _ len "1.prems"(3) rest] lt by simp
      moreover have "take (i + 1) (?xs[i := maxs ! i]) = take i ?xs @ [maxs ! i]"
        using lt "1.prems" by (simp add: take_Suc_conv_app_nth)
      ultimately show ?thesis
        using lt ok neq dx dm
        by (subst GetResizedMetadata_loop.simps) (simp add: resized_shape_def)
    qed
  qed
qed

text \<open>
  C2. When the request has one inclusive minimum and one exclusive maximum for each
  dimension of the existing metadata, and every inclusive minimum is zero or the
  "unspecified" sentinel, \<^verbatim>\<open>GetResizedMetadata\<close> returns the existing metadata with
  only its shape changed: in every dimension the old extent where the new exclusive
  maximum is the sentinel, and the new exclusive maximum otherwise. A request with
  an inclusive minimum that is neither zero nor the sentinel fails an assertion: no
  status is returned.
\<close>

theorem GetResizedMetadata_extents:
  "(length new_inclusive_min = length (ZarrMetadata.shape existing_metadata)
    \<and> length new_exclusive_max = length (ZarrMetadata.shape existing_metadata)
    \<and> (\<forall>i < length new_inclusive_min.
          new_inclusive_min ! i = 0 \<or> new_inclusive_min ! i = kImplicit)
    \<longrightarrow> GetResizedMetadata existing_metadata new_inclusive_min new_exclusive_max =
          Returns (Inr (existing_metadata\<lparr>ZarrMetadata.shape :=
            resized_shape (ZarrMetadata.shape existing_metadata) new_exclusive_max\<rparr>)))
   \<and> ((\<exists>i < length new_inclusive_min.
          new_inclusive_min ! i \<noteq> 0 \<and> new_inclusive_min ! i \<noteq> kImplicit)
      \<longrightarrow> GetResizedMetadata existing_metadata new_inclusive_min new_exclusive_max =
          AssertionFailed)"
proof (intro conjI impI)
  assume a: "length new_inclusive_min = length (ZarrMetadata.shape existing_metadata)
    \<and> length new_exclusive_max = length (ZarrMetadata.shape existing_metadata)
    \<and> (\<forall>i < length new_inclusive_min.
          new_inclusive_min ! i = 0 \<or> new_inclusive_min ! i = kImplicit)"
  then have "\<forall>j. 0 \<le> j \<and> j < length (ZarrMetadata.shape existing_metadata) \<longrightarrow>
               ExplicitIndexOr (new_inclusive_min ! j) 0 = 0"
    by (simp add: ExplicitIndexOr_zero)
  then have "GetResizedMetadata_loop new_inclusive_min new_exclusive_max
               (length (ZarrMetadata.shape existing_metadata)) 0 existing_metadata =
             Returns (existing_metadata\<lparr>ZarrMetadata.shape :=
               take 0 (ZarrMetadata.shape existing_metadata) @
               resized_shape (drop 0 (ZarrMetadata.shape existing_metadata))
                 (drop 0 new_exclusive_max)\<rparr>)"
    using a by (intro GetResizedMetadata_loop_returns) simp_all
  with a show "GetResizedMetadata existing_metadata new_inclusive_min new_exclusive_max =
          Returns (Inr (existing_metadata\<lparr>ZarrMetadata.shape :=
            resized_shape (ZarrMetadata.shape existing_metadata) new_exclusive_max\<rparr>))"
    by (simp add: GetResizedMetadata_def Let_def)
next
  assume "\<exists>i < length new_inclusive_min.
          new_inclusive_min ! i \<noteq> 0 \<and> new_inclusive_min ! i \<noteq> kImplicit"
  then obtain k where k: "k < length new_inclusive_min"
    and bad: "ExplicitIndexOr (new_inclusive_min ! k) 0 \<noteq> 0"
    by (auto simp: ExplicitIndexOr_zero)
  show "GetResizedMetadata existing_metadata new_inclusive_min new_exclusive_max = AssertionFailed"
  proof (cases "length (ZarrMetadata.shape existing_metadata) = length new_inclusive_min")
    case True
    then have "GetResizedMetadata_loop new_inclusive_min new_exclusive_max
                 (length (ZarrMetadata.shape existing_metadata)) 0 existing_metadata = AssertionFailed"
      using k bad by (intro GetResizedMetadata_loop_fails [of 0 k]) simp_all
    then show ?thesis by (auto simp: GetResizedMetadata_def Let_def)
  next
    case False
    then show ?thesis by (simp add: GetResizedMetadata_def Let_def)
  qed
qed


theorem GetResizedMetadata_extents_witness:
  "GetResizedMetadata scenario_metadata [0, kImplicit] [kImplicit, 8]
     = Returns (Inr (scenario_metadata\<lparr>ZarrMetadata.shape := [4, 8]\<rparr>))
   \<and> GetResizedMetadata scenario_metadata [0, 1] [kImplicit, 8] = AssertionFailed"
proof -
  have k: "(8 :: Index) \<noteq> kImplicit" "(1 :: Index) \<noteq> kImplicit"
    by (simp_all add: kImplicit_def)
  have len: "length (ZarrMetadata.shape scenario_metadata) = 2"
    by (simp add: scenario_metadata_def)
  have ok: "\<forall>i < length [0, kImplicit]. [0, kImplicit] ! i = 0 \<or> [0, kImplicit] ! i = kImplicit"
    by (simp add: less_Suc_eq)
  have bad: "\<exists>i < length [0, 1 :: Index]. [0, 1 :: Index] ! i \<noteq> 0 \<and> [0, 1 :: Index] ! i \<noteq> kImplicit"
    using k by (intro exI [of _ 1]) simp
  from GetResizedMetadata_extents [of "[0, kImplicit]" scenario_metadata "[kImplicit, 8]"] ok len
  have "GetResizedMetadata scenario_metadata [0, kImplicit] [kImplicit, 8] =
        Returns (Inr (scenario_metadata\<lparr>ZarrMetadata.shape :=
          resized_shape (ZarrMetadata.shape scenario_metadata) [kImplicit, 8]\<rparr>))"
    by simp
  moreover from GetResizedMetadata_extents [of "[0, 1]" scenario_metadata "[kImplicit, 8]"] bad
  have "GetResizedMetadata scenario_metadata [0, 1] [kImplicit, 8] = AssertionFailed"
    by blast
  ultimately show ?thesis using k by (simp add: resized_shape_def scenario_metadata_def)
qed

subsection \<open>The separator of a store\<close>

text \<open>
  C10. The separator of a store is the one recorded in the stored metadata if there
  is one, otherwise the one of the spec's partial metadata if there is one,
  otherwise the dot. The chunk keys of the cache of a store are the store path
  followed by the indices joined by the character of that separator, a dot for the
  dot separator and a slash for the slash separator: so a separator recorded in the
  metadata decides the keys, otherwise one recorded in the partial metadata does,
  and a store whose metadata and spec record no separator has dot-separated keys.
\<close>

theorem GetDimensionSeparator_precedence:
  "GetDimensionSeparator pm (m\<lparr>ZarrMetadata.dimension_separator := Some d\<rparr>) = d
   \<and> GetDimensionSeparator
       (pm\<lparr>ZarrPartialMetadata.dimension_separator := Some d\<rparr>)
       (m\<lparr>ZarrMetadata.dimension_separator := None\<rparr>) = d
   \<and> GetDimensionSeparator
       (pm\<lparr>ZarrPartialMetadata.dimension_separator := None\<rparr>)
       (m\<lparr>ZarrMetadata.dimension_separator := None\<rparr>) = kDotSeparated
   \<and> GetDimensionSeparatorChar kDotSeparated = CHR ''.''
   \<and> GetDimensionSeparatorChar kSlashSeparated = CHR ''/''
   \<and> GetChunkStorageKey (GetDataCache spec m) m' cell_indices
     = store_path spec @
       join_indices
         (GetDimensionSeparatorChar (GetDimensionSeparator (partial_metadata spec) m))
         cell_indices
   \<and> GetChunkStorageKey
       (GetDataCache spec (m\<lparr>ZarrMetadata.dimension_separator := Some d\<rparr>)) m' cell_indices
     = store_path spec @ join_indices (GetDimensionSeparatorChar d) cell_indices
   \<and> GetChunkStorageKey
       (GetDataCache
          (spec\<lparr>partial_metadata :=
             (partial_metadata spec)\<lparr>ZarrPartialMetadata.dimension_separator := Some d\<rparr>\<rparr>)
          (m\<lparr>ZarrMetadata.dimension_separator := None\<rparr>))
       m' cell_indices
     = store_path spec @ join_indices (GetDimensionSeparatorChar d) cell_indices
   \<and> GetChunkStorageKey
       (GetDataCache
          (spec\<lparr>partial_metadata :=
             (partial_metadata spec)\<lparr>ZarrPartialMetadata.dimension_separator := None\<rparr>\<rparr>)
          (m\<lparr>ZarrMetadata.dimension_separator := None\<rparr>))
       m' cell_indices
     = store_path spec @ join_indices (CHR ''.'') cell_indices"
  by (simp add: GetDimensionSeparator_def GetChunkStorageKey_def GetDataCache_def
      EncodeChunkIndices_join GetDimensionSeparatorChar_def)

theorem GetDimensionSeparator_precedence_witness:
  "GetChunkStorageKey (GetDataCache scenario_spec scenario_metadata) scenario_metadata [1, 0]
     = ''a/1.0''
   \<and> GetChunkStorageKey
       (GetDataCache scenario_spec
          (scenario_metadata\<lparr>ZarrMetadata.dimension_separator := Some kSlashSeparated\<rparr>))
       scenario_metadata [1, 0]
     = ''a/1/0''
   \<and> GetChunkStorageKey
       (GetDataCache
          (scenario_spec\<lparr>partial_metadata :=
             (partial_metadata scenario_spec)
               \<lparr>ZarrPartialMetadata.dimension_separator := Some kSlashSeparated\<rparr>\<rparr>)
          scenario_metadata)
       scenario_metadata [1, 0]
     = ''a/1/0''
   \<and> GetChunkStorageKey
       (GetDataCache
          (scenario_spec\<lparr>partial_metadata :=
             (partial_metadata scenario_spec)
               \<lparr>ZarrPartialMetadata.dimension_separator := Some kSlashSeparated\<rparr>\<rparr>)
          (scenario_metadata\<lparr>ZarrMetadata.dimension_separator := Some kDotSeparated\<rparr>))
       scenario_metadata [1, 0]
     = ''a/1.0''"
proof -
  let ?slash_spec = "scenario_spec\<lparr>partial_metadata :=
      (partial_metadata scenario_spec)
        \<lparr>ZarrPartialMetadata.dimension_separator := Some kSlashSeparated\<rparr>\<rparr>"
  have spec: "scenario_spec\<lparr>partial_metadata :=
      (partial_metadata scenario_spec)\<lparr>ZarrPartialMetadata.dimension_separator := None\<rparr>\<rparr>
      = scenario_spec"
    and md: "scenario_metadata\<lparr>ZarrMetadata.dimension_separator := None\<rparr> = scenario_metadata"
    by (simp_all add: scenario_spec_def scenario_metadata_def)
  have path: "store_path scenario_spec = ''a/''" "store_path ?slash_spec = ''a/''"
    by (simp_all add: scenario_spec_def)
  have digits: "IndexToString 1 = ''1''" "IndexToString 0 = ''0''"
    by (simp_all add: IndexToString_def decimal_digit digit_char_def)
  have default: "GetChunkStorageKey (GetDataCache scenario_spec scenario_metadata)
      scenario_metadata [1, 0] = ''a/1.0''"
  proof -
    have "GetChunkStorageKey
            (GetDataCache
               (scenario_spec\<lparr>partial_metadata :=
                  (partial_metadata scenario_spec)
                    \<lparr>ZarrPartialMetadata.dimension_separator := None\<rparr>\<rparr>)
               (scenario_metadata\<lparr>ZarrMetadata.dimension_separator := None\<rparr>))
            scenario_metadata [1, 0]
          = store_path scenario_spec @ join_indices (CHR ''.'') [1, 0]"
      using GetDimensionSeparator_precedence
        [where spec = scenario_spec and m = scenario_metadata and m' = scenario_metadata
           and pm = "partial_metadata scenario_spec" and d = kDotSeparated
           and cell_indices = "[1, 0]"]
      by blast
    then show ?thesis by (simp add: spec md path digits)
  qed
  have recorded: "GetChunkStorageKey
      (GetDataCache scenario_spec
         (scenario_metadata\<lparr>ZarrMetadata.dimension_separator := Some kSlashSeparated\<rparr>))
      scenario_metadata [1, 0] = ''a/1/0''"
  proof -
    have "GetChunkStorageKey
            (GetDataCache scenario_spec
               (scenario_metadata\<lparr>ZarrMetadata.dimension_separator := Some kSlashSeparated\<rparr>))
            scenario_metadata [1, 0]
          = store_path scenario_spec @
            join_indices (GetDimensionSeparatorChar kSlashSeparated) [1, 0]"
      and "GetDimensionSeparatorChar kSlashSeparated = CHR ''/''"
      using GetDimensionSeparator_precedence
        [where spec = scenario_spec and m = scenario_metadata and m' = scenario_metadata
           and pm = "partial_metadata scenario_spec" and d = kSlashSeparated
           and cell_indices = "[1, 0]"]
      by blast+
    then show ?thesis by (simp add: path digits)
  qed
  have partial: "GetChunkStorageKey (GetDataCache ?slash_spec scenario_metadata)
      scenario_metadata [1, 0] = ''a/1/0''"
  proof -
    have "GetChunkStorageKey
            (GetDataCache ?slash_spec
               (scenario_metadata\<lparr>ZarrMetadata.dimension_separator := None\<rparr>))
            scenario_metadata [1, 0]
          = store_path scenario_spec @
            join_indices (GetDimensionSeparatorChar kSlashSeparated) [1, 0]"
      and "GetDimensionSeparatorChar kSlashSeparated = CHR ''/''"
      using GetDimensionSeparator_precedence
        [where spec = scenario_spec and m = scenario_metadata and m' = scenario_metadata
           and pm = "partial_metadata scenario_spec" and d = kSlashSeparated
           and cell_indices = "[1, 0]"]
      by blast+
    then show ?thesis by (simp add: md path digits)
  qed
  have both: "GetChunkStorageKey
      (GetDataCache ?slash_spec
         (scenario_metadata\<lparr>ZarrMetadata.dimension_separator := Some kDotSeparated\<rparr>))
      scenario_metadata [1, 0] = ''a/1.0''"
  proof -
    have "GetChunkStorageKey
            (GetDataCache ?slash_spec
               (scenario_metadata\<lparr>ZarrMetadata.dimension_separator := Some kDotSeparated\<rparr>))
            scenario_metadata [1, 0]
          = store_path ?slash_spec @
            join_indices (GetDimensionSeparatorChar kDotSeparated) [1, 0]"
      and "GetDimensionSeparatorChar kDotSeparated = CHR ''.''"
      using GetDimensionSeparator_precedence
        [where spec = ?slash_spec and m = scenario_metadata and m' = scenario_metadata
           and pm = "partial_metadata scenario_spec" and d = kDotSeparated
           and cell_indices = "[1, 0]"]
      by blast+
    then show ?thesis by (simp add: path digits)
  qed
  from default recorded partial both show ?thesis by simp
qed

subsection \<open>Metadata compatibility\<close>

text \<open>
  C1. For metadata values \<open>m\<close> and \<open>m'\<close>, \<^verbatim>\<open>ValidateMetadataCompatibility\<close> returns the OK
  status exactly when they agree on rank, chunk shape and field layout, and returns
  a failed-precondition error otherwise; a change of the shape extents alone is
  accepted.
\<close>

theorem ValidateMetadataCompatibility_iff:
  "ValidateMetadataCompatibility dump (Some m) (Some m') =
     (if rank m = rank m' \<and> ZarrMetadata.chunks m = ZarrMetadata.chunks m'
         \<and> ZarrMetadata.dtype m = ZarrMetadata.dtype m'
      then Returns OkStatus
      else Returns (Inl (FailedPreconditionError
             (''Updated zarr metadata '' @ dump m' @
              '' is incompatible with existing metadata '' @ dump m))))
   \<and> ((ValidateMetadataCompatibility dump (Some m) (Some m') = Returns OkStatus) =
        (rank m = rank m' \<and> ZarrMetadata.chunks m = ZarrMetadata.chunks m'
         \<and> ZarrMetadata.dtype m = ZarrMetadata.dtype m'))
   \<and> code (FailedPreconditionError msg) = kFailedPrecondition
   \<and> ValidateMetadataCompatibility dump (Some m) (Some (m\<lparr>ZarrMetadata.shape := s\<rparr>)) =
       Returns OkStatus"
  by (simp add: ValidateMetadataCompatibility_def IsMetadataCompatible_def
      FailedPreconditionError_def OkStatus_def)

theorem ValidateMetadataCompatibility_iff_witness:
  "ValidateMetadataCompatibility (\<lambda>_. []) (Some scenario_metadata)
     (Some (scenario_metadata\<lparr>ZarrMetadata.shape := [4, 8]\<rparr>)) = Returns OkStatus
   \<and> ValidateMetadataCompatibility (\<lambda>_. []) (Some scenario_metadata)
     (Some (scenario_metadata\<lparr>ZarrMetadata.chunks := [4, 4]\<rparr>)) =
       Returns (Inl (Status kFailedPrecondition
         ''Updated zarr metadata  is incompatible with existing metadata ''))"
  using ValidateMetadataCompatibility_iff
      [of "\<lambda>_. []" scenario_metadata "scenario_metadata\<lparr>ZarrMetadata.shape := [4, 8]\<rparr>"]
    ValidateMetadataCompatibility_iff
      [of "\<lambda>_. []" scenario_metadata "scenario_metadata\<lparr>ZarrMetadata.chunks := [4, 4]\<rparr>"]
  by (simp add: scenario_metadata_def FailedPreconditionError_def)

subsection \<open>Chunk grid bounds\<close>

text \<open>
  C5. Called with a box and two bit spans of the rank of the metadata,
  \<^verbatim>\<open>GetChunkGridBounds\<close> leaves an origin of zeros, the shape of the metadata, lower
  bounds that are all explicit and upper bounds that are all implicit, whatever the
  three outputs held before.
\<close>

theorem GetChunkGridBounds_result:
  "box_rank bounds = length (ZarrMetadata.shape metadata) \<Longrightarrow>
   length (Box.shape bounds) = box_rank bounds \<Longrightarrow>
   length implicit_lower_bounds = box_rank bounds \<Longrightarrow>
   length implicit_upper_bounds = box_rank bounds \<Longrightarrow>
   GetChunkGridBounds metadata bounds implicit_lower_bounds implicit_upper_bounds =
     Returns
       (\<lparr>origin = replicate (length (ZarrMetadata.shape metadata)) 0,
         shape = ZarrMetadata.shape metadata\<rparr>,
        replicate (length (ZarrMetadata.shape metadata)) False,
        replicate (length (ZarrMetadata.shape metadata)) True)"
  by (simp add: GetChunkGridBounds_def box_rank_def map_replicate_const)

theorem GetChunkGridBounds_result_witness:
  "GetChunkGridBounds scenario_metadata \<lparr>origin = [7, 7], shape = [9, 9]\<rparr>
     [True, True] [False, False]
   = Returns (\<lparr>origin = [0, 0], shape = [4, 4]\<rparr>, [False, False], [True, True])"
  using GetChunkGridBounds_result
    [of "\<lparr>origin = [7, 7], shape = [9, 9]\<rparr>" scenario_metadata "[True, True]" "[False, False]"]
  by (simp add: box_rank_def scenario_metadata_def numeral_2_eq_2)

subsection \<open>The deprecated key_encoding member\<close>

text \<open>
  C6. When a document has the deprecated member \<^verbatim>\<open>key_encoding\<close> with the separator
  \<open>v\<close>: if the metadata member of the document gave no dimension separator, \<open>v\<close> is
  adopted as the dimension separator of the partial metadata; if it gave the same
  separator, binding succeeds and the spec is unchanged; if it gave another
  separator, binding fails with an invalid-argument error that reports the
  mismatch.
\<close>

theorem key_encoding_binder_cases:
  "(ZarrPartialMetadata.dimension_separator (partial_metadata obj) = None \<longrightarrow>
      key_encoding_binder dump obj v =
        Inr (obj\<lparr>partial_metadata :=
               (partial_metadata obj)\<lparr>ZarrPartialMetadata.dimension_separator := Some v\<rparr>\<rparr>))
   \<and> (ZarrPartialMetadata.dimension_separator (partial_metadata obj) = Some v \<longrightarrow>
      key_encoding_binder dump obj v = Inr obj)
   \<and> (ZarrPartialMetadata.dimension_separator (partial_metadata obj) = Some s \<and> s \<noteq> v \<longrightarrow>
      key_encoding_binder dump obj v =
        Inl (InvalidArgumentError
               (''value ('' @ dump v @ '') does not match value in metadata ('' @ dump s @ '')''))
      \<and> code (InvalidArgumentError
               (''value ('' @ dump v @ '') does not match value in metadata ('' @ dump s @ '')''))
          = kInvalidArgument)"
  by (auto simp: key_encoding_binder_def InvalidArgumentError_def)

theorem key_encoding_binder_cases_witness:
  "key_encoding_binder (\<lambda>_. []) scenario_spec kSlashSeparated =
     Inr (scenario_spec\<lparr>partial_metadata :=
            (partial_metadata scenario_spec)
              \<lparr>ZarrPartialMetadata.dimension_separator := Some kSlashSeparated\<rparr>\<rparr>)
   \<and> key_encoding_binder (\<lambda>_. [])
       (scenario_spec\<lparr>partial_metadata :=
          (partial_metadata scenario_spec)
            \<lparr>ZarrPartialMetadata.dimension_separator := Some kSlashSeparated\<rparr>\<rparr>)
       kSlashSeparated =
     Inr (scenario_spec\<lparr>partial_metadata :=
            (partial_metadata scenario_spec)
              \<lparr>ZarrPartialMetadata.dimension_separator := Some kSlashSeparated\<rparr>\<rparr>)
   \<and> key_encoding_binder (\<lambda>_. [])
       (scenario_spec\<lparr>partial_metadata :=
          (partial_metadata scenario_spec)
            \<lparr>ZarrPartialMetadata.dimension_separator := Some kDotSeparated\<rparr>\<rparr>)
       kSlashSeparated =
     Inl (Status kInvalidArgument ''value () does not match value in metadata ()'')"
  using key_encoding_binder_cases
      [where obj = scenario_spec and dump = "\<lambda>_. []" and v = kSlashSeparated]
    key_encoding_binder_cases
      [where obj = "scenario_spec\<lparr>partial_metadata :=
             (partial_metadata scenario_spec)
               \<lparr>ZarrPartialMetadata.dimension_separator := Some kSlashSeparated\<rparr>\<rparr>"
         and dump = "\<lambda>_. []" and v = kSlashSeparated]
    key_encoding_binder_cases
      [where obj = "scenario_spec\<lparr>partial_metadata :=
             (partial_metadata scenario_spec)
               \<lparr>ZarrPartialMetadata.dimension_separator := Some kDotSeparated\<rparr>\<rparr>"
         and dump = "\<lambda>_. []" and v = kSlashSeparated and s = kDotSeparated]
  by (simp add: scenario_spec_def InvalidArgumentError_def)

subsection \<open>Fill values\<close>

text \<open>
  \<^verbatim>\<open>SpecGetFillValue\<close> checks the rank itself. When the fill value that \<^verbatim>\<open>SpecGetFillValue\<close> selects is valid and has rank \<open>r\<close>,
  and the transform is valid: if the output rank of the transform is less than \<open>r\<close>
  the result is an invalid-argument error that reports the incompatible rank;
  otherwise the result is that of \<^verbatim>\<open>TransformOutputBroadcastableArray\<close> on the
  transform, the fill value and the domain in which the missing leading dimensions
  and the dimensions of size 1 broadcast.
\<close>

lemma SpecGetFillValue_rank:
  assumes "SpecGetFillValue_select GetFieldIndex spec = Inr fv"
    and "array_valid fv" and "transform_valid transform"
  shows "(output_rank transform < array_rank fv \<longrightarrow>
            SpecGetFillValue GetFieldIndex IndexDomain TransformOutputBroadcastableArray spec transform =
              Inl (InvalidArgumentError
                     (''Transform with output rank '' @ decimal (output_rank transform) @
                      '' is not compatible with metadata''))
            \<and> code (InvalidArgumentError
                     (''Transform with output rank '' @ decimal (output_rank transform) @
                      '' is not compatible with metadata'')) = kInvalidArgument)
         \<and> (array_rank fv \<le> output_rank transform \<longrightarrow>
            SpecGetFillValue GetFieldIndex IndexDomain TransformOutputBroadcastableArray spec transform =
              TransformOutputBroadcastableArray transform fv
                (IndexDomain
                   (replicate (output_rank transform - array_rank fv) (kInfIndex + 1) @
                    map (\<lambda>size. if size = 1 then kInfIndex + 1 else size) (array_shape fv))))"
  using assms by (simp add: SpecGetFillValue_def Let_def InvalidArgumentError_def)

lemma SpecGetFillValue_rank_example:
  "SpecGetFillValue (\<lambda>_ _. Inr 0) (\<lambda>s. s) (\<lambda>_ a _. Inr a)
     (scenario_spec\<lparr>partial_metadata :=
        (partial_metadata scenario_spec)
          \<lparr>ZarrPartialMetadata.dtype :=
             Some \<lparr>dtype_fields = [\<lparr>ZarrField.dtype = ''float32'', field_shape = [3, 1]\<rparr>]\<rparr>,
           ZarrPartialMetadata.fill_value :=
             Some [\<lparr>element_pointer = Some (), array_shape = [3, 1]\<rparr>]\<rparr>\<rparr>)
     (Transform 1 1 ())
   = Inl (Status kInvalidArgument ''Transform with output rank 1 is not compatible with metadata'')
   \<and> SpecGetFillValue (\<lambda>_ _. Inr 0) (\<lambda>s. s) (\<lambda>_ a s. Inr (a\<lparr>array_shape := s\<rparr>))
     (scenario_spec\<lparr>partial_metadata :=
        (partial_metadata scenario_spec)
          \<lparr>ZarrPartialMetadata.dtype :=
             Some \<lparr>dtype_fields = [\<lparr>ZarrField.dtype = ''float32'', field_shape = [3, 1]\<rparr>]\<rparr>,
           ZarrPartialMetadata.fill_value :=
             Some [\<lparr>element_pointer = Some (), array_shape = [3, 1]\<rparr>]\<rparr>\<rparr>)
     (Transform 3 3 ())
   = Inr \<lparr>element_pointer = Some (), array_shape = [kInfIndex + 1, 3, kInfIndex + 1]\<rparr>"
proof -
  let ?fv = "\<lparr>element_pointer = Some (), array_shape = [3, 1 :: Index]\<rparr>"
  let ?spec = "scenario_spec\<lparr>partial_metadata :=
        (partial_metadata scenario_spec)
          \<lparr>ZarrPartialMetadata.dtype :=
             Some \<lparr>dtype_fields = [\<lparr>ZarrField.dtype = ''float32'', field_shape = [3, 1]\<rparr>]\<rparr>,
           ZarrPartialMetadata.fill_value := Some [?fv]\<rparr>\<rparr>"
  have sel: "SpecGetFillValue_select (\<lambda>_ _. Inr 0) ?spec = Inr ?fv"
    by (simp add: SpecGetFillValue_select_def scenario_spec_def)
  have v: "array_valid ?fv" by (simp add: array_valid_def)
  have r: "array_rank ?fv = 2" by (simp add: array_rank_def)
  have t1: "transform_valid (Transform 1 1 ())" and t3: "transform_valid (Transform 3 3 ())"
    by simp_all
  have "SpecGetFillValue (\<lambda>_ _. Inr 0) (\<lambda>s. s) (\<lambda>_ a _. Inr a) ?spec (Transform 1 1 ()) =
          Inl (InvalidArgumentError
                 (''Transform with output rank '' @ decimal (output_rank (Transform 1 1 ())) @
                  '' is not compatible with metadata''))"
    using SpecGetFillValue_rank [OF sel v t1, of "\<lambda>s. s" "\<lambda>_ a _. Inr a"] r by simp
  moreover have
    "SpecGetFillValue (\<lambda>_ _. Inr 0) (\<lambda>s. s) (\<lambda>_ a s. Inr (a\<lparr>array_shape := s\<rparr>)) ?spec
       (Transform 3 3 ()) =
     (\<lambda>_ a s. Inr (a\<lparr>array_shape := s\<rparr>)) (Transform 3 3 ()) ?fv
       ((\<lambda>s. s)
          (replicate (output_rank (Transform 3 3 ()) - array_rank ?fv) (kInfIndex + 1) @
           map (\<lambda>size. if size = 1 then kInfIndex + 1 else size) (array_shape ?fv)))"
    using SpecGetFillValue_rank [OF sel v t3, of "\<lambda>s. s" "\<lambda>_ a s. Inr (a\<lparr>array_shape := s\<rparr>)"] r
    by simp
  ultimately show ?thesis
    by (simp add: InvalidArgumentError_def decimal_digit digit_char_def array_rank_def)
qed

text \<open>The driver's \<^verbatim>\<open>GetFillValue\<close>, for a field whose fill value is valid: the result
  is that of \<^verbatim>\<open>TransformOutputBroadcastableArray\<close> on a domain with one unbounded
  dimension for each chunked dimension, followed by the shape of the field.\<close>

lemma GetFillValue_valid:
  "array_valid (ZarrMetadata.fill_value metadata ! component_index) \<Longrightarrow>
   GetFillValue Finalize TransformOutputBroadcastableArray metadata component_index transform =
     (case Finalize (replicate (rank metadata) (kInfIndex + 1) @
                     field_shape (dtype_fields (ZarrMetadata.dtype metadata) ! component_index)) of
        Inl e \<Rightarrow> Inl e
      | Inr output_domain \<Rightarrow>
          TransformOutputBroadcastableArray transform
            (ZarrMetadata.fill_value metadata ! component_index) output_domain)"
  by (simp add: GetFillValue_def Let_def)

text \<open>
  C7. For a component of the metadata whose fill value is valid and has rank \<open>r\<close>,
  and a valid transform, when the domain of the component is built: if the output
  rank of the transform is less than \<open>r\<close>, \<^verbatim>\<open>GetFillValue\<close> fails with an
  invalid-argument error; if it is at least \<open>r\<close>, \<^verbatim>\<open>GetFillValue\<close> returns the
  broadcast of the fill value against the transform, on the domain with one
  unbounded dimension for each chunked dimension followed by the shape of the
  field.
\<close>

theorem GetFillValue_rank:
  assumes "component_index < length (ZarrMetadata.fill_value metadata)"
    and "array_valid (ZarrMetadata.fill_value metadata ! component_index)"
    and "transform_valid transform"
    and "Finalize (replicate (rank metadata) (kInfIndex + 1) @
                   field_shape (dtype_fields (ZarrMetadata.dtype metadata) ! component_index))
         = Inr output_domain"
  shows "(output_rank transform < array_rank (ZarrMetadata.fill_value metadata ! component_index)
          \<longrightarrow>
            GetFillValue Finalize (TransformOutputBroadcastableArray_spec broadcast)
              metadata component_index transform = Inl (InvalidArgumentError [])
            \<and> code (InvalidArgumentError []) = kInvalidArgument)
         \<and> (array_rank (ZarrMetadata.fill_value metadata ! component_index) \<le> output_rank transform
          \<longrightarrow>
            GetFillValue Finalize (TransformOutputBroadcastableArray_spec broadcast)
              metadata component_index transform =
              broadcast transform (ZarrMetadata.fill_value metadata ! component_index)
                output_domain)"
  using assms
  by (simp add: GetFillValue_def Let_def TransformOutputBroadcastableArray_spec_def
      InvalidArgumentError_def)

theorem GetFillValue_rank_witness:
  "GetFillValue Inr (TransformOutputBroadcastableArray_spec (\<lambda>_ a s. Inr (a\<lparr>array_shape := s\<rparr>)))
     (scenario_metadata
        \<lparr>ZarrMetadata.dtype :=
           \<lparr>dtype_fields = [\<lparr>ZarrField.dtype = ''float32'', field_shape = [3, 1]\<rparr>]\<rparr>,
         ZarrMetadata.fill_value := [\<lparr>element_pointer = Some (), array_shape = [3, 1]\<rparr>]\<rparr>)
     0 (Transform 1 1 ())
   = Inl (Status kInvalidArgument [])
   \<and> GetFillValue Inr (TransformOutputBroadcastableArray_spec (\<lambda>_ a s. Inr (a\<lparr>array_shape := s\<rparr>)))
     (scenario_metadata
        \<lparr>ZarrMetadata.dtype :=
           \<lparr>dtype_fields = [\<lparr>ZarrField.dtype = ''float32'', field_shape = [3, 1]\<rparr>]\<rparr>,
         ZarrMetadata.fill_value := [\<lparr>element_pointer = Some (), array_shape = [3, 1]\<rparr>]\<rparr>)
     0 (Transform 4 4 ())
   = Inr \<lparr>element_pointer = Some (),
          array_shape = [kInfIndex + 1, kInfIndex + 1, 3, 1]\<rparr>"
proof -
  let ?fv = "\<lparr>element_pointer = Some (), array_shape = [3, 1 :: Index]\<rparr>"
  let ?md = "scenario_metadata
        \<lparr>ZarrMetadata.dtype :=
           \<lparr>dtype_fields = [\<lparr>ZarrField.dtype = ''float32'', field_shape = [3, 1]\<rparr>]\<rparr>,
         ZarrMetadata.fill_value := [?fv]\<rparr>"
  let ?b = "\<lambda>(t :: unit IndexTransformView) (a :: unit SharedArray) s.
              (Inr (a\<lparr>array_shape := s\<rparr>) :: unit SharedArray Result)"
  have i: "0 < length (ZarrMetadata.fill_value ?md)"
    and fv: "ZarrMetadata.fill_value ?md ! 0 = ?fv"
    by simp_all
  have v: "array_valid (ZarrMetadata.fill_value ?md ! 0)"
    by (simp add: array_valid_def)
  have r: "array_rank ?fv = 2" by (simp add: array_rank_def)
  have t1: "transform_valid (Transform 1 1 ())" and t4: "transform_valid (Transform 4 4 ())"
    by simp_all
  have dom: "Inr (replicate (rank ?md) (kInfIndex + 1) @
                  field_shape (dtype_fields (ZarrMetadata.dtype ?md) ! 0))
             = (Inr [kInfIndex + 1, kInfIndex + 1, 3, 1] :: Index list Result)"
    by (simp add: scenario_metadata_def numeral_2_eq_2)
  have low: "GetFillValue Inr (TransformOutputBroadcastableArray_spec ?b) ?md 0 (Transform 1 1 ())
          = Inl (InvalidArgumentError [])"
    using GetFillValue_rank
      [where metadata = ?md and component_index = 0 and transform = "Transform 1 1 ()"
         and Finalize = Inr and output_domain = "[kInfIndex + 1, kInfIndex + 1, 3, 1]"
         and broadcast = ?b]
      i v t1 dom fv r
    by simp
  have high: "GetFillValue Inr (TransformOutputBroadcastableArray_spec ?b) ?md 0 (Transform 4 4 ())
          = ?b (Transform 4 4 ()) (ZarrMetadata.fill_value ?md ! 0)
              [kInfIndex + 1, kInfIndex + 1, 3, 1]"
    using GetFillValue_rank
      [where metadata = ?md and component_index = 0 and transform = "Transform 4 4 ()"
         and Finalize = Inr and output_domain = "[kInfIndex + 1, kInfIndex + 1, 3, 1]"
         and broadcast = ?b]
      i v t4 dom fv r
    by simp
  from low high show ?thesis by (simp add: InvalidArgumentError_def)
qed

text \<open>
  C9. For a component of the metadata whose fill value is not valid, that is, not
  declared, \<^verbatim>\<open>GetFillValue\<close> returns successfully, for every transform, and the array
  it returns is the null array, which is not valid.
\<close>

theorem GetFillValue_unset:
  fixes metadata :: "('d, 'e, 'z) ZarrMetadata_scheme"
  shows "component_index < length (ZarrMetadata.fill_value metadata) \<Longrightarrow>
   \<not> array_valid (ZarrMetadata.fill_value metadata ! component_index) \<Longrightarrow>
   GetFillValue Finalize TransformOutputBroadcastableArray metadata component_index transform =
     Inr null_array
   \<and> \<not> array_valid (null_array :: 'e SharedArray)"
  by (simp add: GetFillValue_def null_array_def array_valid_def)

theorem GetFillValue_unset_witness:
  "GetFillValue Inr (\<lambda>_ a _. Inr a) scenario_metadata 0 (Transform 2 2 ()) = Inr null_array
   \<and> GetFillValue (\<lambda>_. Inl (Status kInternal [])) (\<lambda>_ _ _. Inl (Status kInternal []))
       scenario_metadata 0 (NullTransform :: unit IndexTransformView) = Inr null_array"
proof -
  have i: "0 < length (ZarrMetadata.fill_value scenario_metadata)"
    and n: "\<not> array_valid (ZarrMetadata.fill_value scenario_metadata ! 0)"
    by (simp_all add: scenario_metadata_def null_array_def array_valid_def)
  show ?thesis
    using GetFillValue_unset [OF i n, of Inr "\<lambda>_ a _. Inr a" "Transform 2 2 ()"]
      GetFillValue_unset [OF i n, of "\<lambda>_. Inl (Status kInternal [])"
        "\<lambda>_ _ _. Inl (Status kInternal [])" "NullTransform :: unit IndexTransformView"]
    by simp
qed

subsection \<open>Creating metadata\<close>

text \<open>
  C8. \<^verbatim>\<open>Create\<close> on a store that has metadata fails with an error of the code
  already-exists. On a store without metadata it calls \<^verbatim>\<open>GetNewMetadata\<close> on the
  partial metadata, the selected field and the schema of the spec, and returns the
  new metadata, or the annotated error of that call.
\<close>

theorem Create_already_exists:
  \<open>Create GetNewMetadata MaybeAnnotateStatus spec (Some existing) = Inl (AlreadyExistsError [])
   \<and> code (AlreadyExistsError []) = kAlreadyExists
   \<and> Create GetNewMetadata MaybeAnnotateStatus spec None =
       (case GetNewMetadata (partial_metadata spec) (selected_field spec) (schema spec) of
          Inl e \<Rightarrow>
            Inl (MaybeAnnotateStatus e ''Cannot create using specified "metadata" and schema'')
        | Inr metadata \<Rightarrow> Inr metadata)\<close>
  by (simp add: Create_def AlreadyExistsError_def)

theorem Create_already_exists_witness:
  "Create (\<lambda>_ _ _. Inr scenario_metadata) (\<lambda>e _. e) scenario_spec (Some scenario_metadata) =
     Inl (Status kAlreadyExists [])
   \<and> Create (\<lambda>_ _ _. Inr scenario_metadata) (\<lambda>e _. e) scenario_spec None = Inr scenario_metadata"
  using Create_already_exists
    [of "\<lambda>_ _ _. Inr scenario_metadata" "\<lambda>e _. e" scenario_spec scenario_metadata]
  by (simp add: AlreadyExistsError_def)

subsection \<open>Decoding metadata\<close>

text \<open>Bytes that the JSON parser rejects decode to the failed-precondition error
  \<^verbatim>\<open>Invalid JSON\<close>; for bytes that it accepts, the result of decoding is that of
  \<^verbatim>\<open>ZarrMetadata::FromJson\<close>.\<close>

lemma DecodeMetadata_invalid_json:
  "parse encoded_metadata = None \<Longrightarrow>
   DecodeMetadata parse FromJson entry_key encoded_metadata =
     Inl (Status kFailedPrecondition ''Invalid JSON'')"
  by (simp add: DecodeMetadata_def ParseEncodedMetadata_def FailedPreconditionError_def)

lemma DecodeMetadata_parsed:
  "parse encoded_metadata = Some raw_data \<Longrightarrow>
   DecodeMetadata parse FromJson entry_key encoded_metadata = FromJson raw_data"
  by (simp add: DecodeMetadata_def ParseEncodedMetadata_def)

end
